theory Spec2Isabelle
  imports Main "HOL-Library.Word"
begin

section \<open>Disk file handles and the disk filesystem facade (filesystem_disk.cpp)\<close>

text \<open>
  The translation unit wraps two native file APIs behind one \<open>File\<close> capability
  (\<open>FileDisk\<close>, one body per platform, selected by \<open>#if CROWN_PLATFORM_POSIX\<close> /
  \<open>#elif CROWN_PLATFORM_WINDOWS\<close>) and a facade (\<open>FilesystemDisk\<close>) that resolves a
  path against a prefix and forwards to the OS layer.

  The native calls (\<open>fopen\<close>, \<open>fseek\<close>, \<open>CreateFile\<close>, \<open>SetFilePointer\<close>, ...), the
  \<open>os::\<close> primitives and the \<open>path::\<close> utilities are not part of the translation unit.
  They are taken as parameters: a record of functions over an arbitrary world type
  \<open>'w\<close> (everything outside the process: files, streams, caller buffers). A native call
  that may change the world returns the new world; a pure query (\<open>ftell\<close>, \<open>feof\<close>,
  \<open>ferror\<close>, \<open>GetFileSize\<close>, \<open>os::exists\<close>, ...) only reads it. Every theorem below that
  quantifies over such a record holds for every native layer of that shape. Where the
  native interface itself gives a call no defined behaviour (a null stream handed to
  stdio), the model does not apply the parameter and records the outcome as such.
\<close>

subsection \<open>Integers, pointers, errors\<close>

type_synonym u32 = "32 word"
type_synonym u64 = "64 word"

text \<open>\<open>FILE*\<close> and \<open>void*\<close> are addresses; \<open>NULL\<close> is address 0.\<close>

type_synonym FILE_ptr = nat
type_synonym void_ptr = nat

definition NULL :: nat where
  "NULL = 0"

text \<open>
  The ways a call can leave the normal path. \<open>Abort\<close> is \<open>error::abort\<close> behind a failed
  assertion, with the assertion's format string. The other two stand for executions
  that have no defined behaviour: \<open>Null_Path\<close> when a null \<open>const char*\<close> path gets past
  a compiled-out \<open>CE_ENSURE\<close> and is handed to the string utilities, \<open>Null_Stream\<close> when
  a null \<open>FILE*\<close> is handed to a stdio function that dereferences it.
\<close>

datatype error = Abort string | Null_Path | Null_Stream

text \<open>
  Modelled from the spec: the macros \<open>CE_ASSERT\<close> and \<open>CE_ENSURE\<close> (core/error/error.h is
  not among the sources). Section 7: contract violations and native call failures are
  "checked via assertions and fatal in all builds that enable them". The first argument
  says whether the build enables assertions; the last is the rest of the function body.
  The source's \<open>CE_UNUSED(err)\<close> after each assertion is there for the builds in which
  the macro expands to nothing.
\<close>

definition CE_ASSERT :: "bool \<Rightarrow> bool \<Rightarrow> string \<Rightarrow> error + 'a \<Rightarrow> error + 'a" where
  "CE_ASSERT enabled condition msg rest =
     (if enabled \<and> \<not> condition then Inl (Abort msg) else rest)"

definition CE_ENSURE :: "bool \<Rightarrow> bool \<Rightarrow> error + 'a \<Rightarrow> error + 'a" where
  "CE_ENSURE enabled condition rest = CE_ASSERT enabled condition [] rest"

datatype FileOpenMode = READ | WRITE

subsection \<open>The buffered-stream backend (\<open>CROWN_PLATFORM_POSIX\<close>)\<close>

datatype whence = SEEK_SET | SEEK_CUR | SEEK_END

text \<open>
  The part of \<open><stdio.h>\<close> the file uses. \<open>long\<close> values are \<open>int\<close>, \<open>size_t\<close> values are
  \<open>nat\<close>; the conversions the source writes, \<open>(u32)pos\<close> and \<open>(long)position\<close>, are
  \<open>word_of_int\<close> (reduction modulo \<open>2^32\<close>) and \<open>uint\<close> (value preserving, \<open>long\<close> being
  wider than 32 bits on the LP64 targets). \<open>fread\<close> and \<open>fwrite\<close> get the caller's buffer
  as an address; its bytes live in the world.
\<close>

record 'w stdio =
  fopen :: "string \<Rightarrow> string \<Rightarrow> 'w \<Rightarrow> FILE_ptr \<times> 'w"
  fclose :: "FILE_ptr \<Rightarrow> 'w \<Rightarrow> 'w"
  ftell :: "FILE_ptr \<Rightarrow> 'w \<Rightarrow> int"
  fseek :: "FILE_ptr \<Rightarrow> int \<Rightarrow> whence \<Rightarrow> 'w \<Rightarrow> int \<times> 'w"
  feof :: "FILE_ptr \<Rightarrow> 'w \<Rightarrow> int"
  ferror :: "FILE_ptr \<Rightarrow> 'w \<Rightarrow> int"
  fread :: "void_ptr \<Rightarrow> nat \<Rightarrow> nat \<Rightarrow> FILE_ptr \<Rightarrow> 'w \<Rightarrow> nat \<times> 'w"
  fwrite :: "void_ptr \<Rightarrow> nat \<Rightarrow> nat \<Rightarrow> FILE_ptr \<Rightarrow> 'w \<Rightarrow> nat \<times> 'w"
  fflush :: "FILE_ptr \<Rightarrow> 'w \<Rightarrow> int \<times> 'w"

text \<open>\<open>class FileDisk\<close>, POSIX members: \<open>FILE* _file\<close>.\<close>

record FileDisk_posix =
  p_file :: FILE_ptr

text \<open>The constructor: \<open>_file(NULL)\<close>.\<close>

definition FileDisk_new_posix :: FileDisk_posix where
  "FileDisk_new_posix = \<lparr>p_file = NULL\<rparr>"

definition FileDisk_is_open_posix :: "FileDisk_posix \<Rightarrow> bool" where
  "FileDisk_is_open_posix h = (p_file h \<noteq> NULL)"

definition FileDisk_open_posix ::
  "bool \<Rightarrow> 'w stdio \<Rightarrow> FileDisk_posix \<Rightarrow> string \<Rightarrow> FileOpenMode \<Rightarrow> 'w
     \<Rightarrow> error + (FileDisk_posix \<times> 'w)" where
  "FileDisk_open_posix dbg io h path mode w =
     (let (f, w1) = fopen io path (if mode = READ then ''rb'' else ''wb'') w
      in CE_ASSERT dbg (f \<noteq> NULL) ''fopen: errno = %d, path = %s''
           (Inr (h\<lparr>p_file := f\<rparr>, w1)))"

text \<open>
  \<open>ftell\<close>, \<open>fseek\<close>, \<open>feof\<close>, \<open>ferror\<close>, \<open>fread\<close> and \<open>fwrite\<close> dereference their stream
  argument: called with a null pointer they have no defined behaviour (ISO C 7.1.4), in
  any build, so the functions of the record are only ever applied to a non-null stream.
  An operation that reaches such a call with \<open>_file == NULL\<close> ends in \<open>Null_Stream\<close>. The
  source has no test there; \<open>stream_call\<close> marks the first such call of each
  operation. \<open>fflush(NULL)\<close> is defined (it flushes every output stream) and is left to
  the native layer, and \<open>fclose\<close> is only reached behind \<open>is_open()\<close>. Whether a data
  address is a valid buffer is a matter of the world and is left to the native layer
  as well.
\<close>

definition stream_call :: "FileDisk_posix \<Rightarrow> error + 'a \<Rightarrow> error + 'a" where
  "stream_call h rest = (if p_file h = NULL then Inl Null_Stream else rest)"

text \<open>\<open>close\<close> has no assertion and ignores what \<open>fclose\<close> returns.\<close>

definition FileDisk_close_posix ::
  "'w stdio \<Rightarrow> FileDisk_posix \<Rightarrow> 'w \<Rightarrow> FileDisk_posix \<times> 'w" where
  "FileDisk_close_posix io h w =
     (if FileDisk_is_open_posix h
      then (h\<lparr>p_file := NULL\<rparr>, fclose io (p_file h) w)
      else (h, w))"

definition FileDisk_size_posix ::
  "bool \<Rightarrow> 'w stdio \<Rightarrow> FileDisk_posix \<Rightarrow> 'w \<Rightarrow> error + (u32 \<times> 'w)" where
  "FileDisk_size_posix dbg io h w =
     stream_call h
     (let pos = ftell io (p_file h) w
      in CE_ASSERT dbg (pos \<noteq> -1) ''ftell: errno = %d''
        (let (err, w1) = fseek io (p_file h) 0 SEEK_END w
         in CE_ASSERT dbg (err = 0) ''fseek: errno = %d''
           (let size' = ftell io (p_file h) w1
            in CE_ASSERT dbg (size' \<noteq> -1) ''ftell: errno = %d''
              (let (err2, w2) = fseek io (p_file h) pos SEEK_SET w1
               in CE_ASSERT dbg (err2 = 0) ''fseek: errno = %d''
                    (Inr (word_of_int size', w2))))))"

definition FileDisk_position_posix ::
  "bool \<Rightarrow> 'w stdio \<Rightarrow> FileDisk_posix \<Rightarrow> 'w \<Rightarrow> error + (u32 \<times> 'w)" where
  "FileDisk_position_posix dbg io h w =
     stream_call h
     (let pos = ftell io (p_file h) w
      in CE_ASSERT dbg (pos \<noteq> -1) ''ftell: errno = %d''
           (Inr (word_of_int pos, w)))"

definition FileDisk_end_of_file_posix ::
  "'w stdio \<Rightarrow> FileDisk_posix \<Rightarrow> 'w \<Rightarrow> error + bool" where
  "FileDisk_end_of_file_posix io h w =
     stream_call h (Inr (feof io (p_file h) w \<noteq> 0))"

definition FileDisk_seek_posix ::
  "bool \<Rightarrow> 'w stdio \<Rightarrow> FileDisk_posix \<Rightarrow> u32 \<Rightarrow> 'w \<Rightarrow> error + 'w" where
  "FileDisk_seek_posix dbg io h position w =
     stream_call h
     (let (err, w1) = fseek io (p_file h) (uint position) SEEK_SET w
      in CE_ASSERT dbg (err = 0) ''fseek: errno = %d'' (Inr w1))"

definition FileDisk_seek_to_end_posix ::
  "bool \<Rightarrow> 'w stdio \<Rightarrow> FileDisk_posix \<Rightarrow> 'w \<Rightarrow> error + 'w" where
  "FileDisk_seek_to_end_posix dbg io h w =
     stream_call h
     (let (err, w1) = fseek io (p_file h) 0 SEEK_END w
      in CE_ASSERT dbg (err = 0) ''fseek: errno = %d'' (Inr w1))"

definition FileDisk_skip_posix ::
  "bool \<Rightarrow> 'w stdio \<Rightarrow> FileDisk_posix \<Rightarrow> u32 \<Rightarrow> 'w \<Rightarrow> error + 'w" where
  "FileDisk_skip_posix dbg io h bytes w =
     stream_call h
     (let (err, w1) = fseek io (p_file h) (uint bytes) SEEK_CUR w
      in CE_ASSERT dbg (err = 0) ''fseek: errno = %d'' (Inr w1))"

definition FileDisk_read_posix ::
  "bool \<Rightarrow> 'w stdio \<Rightarrow> FileDisk_posix \<Rightarrow> void_ptr \<Rightarrow> u32 \<Rightarrow> 'w \<Rightarrow> error + (u32 \<times> 'w)" where
  "FileDisk_read_posix dbg io h data size' w =
     CE_ASSERT dbg (data \<noteq> NULL) ''Data must be != NULL''
       (stream_call h
       (let (bytes_read, w1) = fread io data 1 (unat size') (p_file h) w
        in CE_ASSERT dbg (ferror io (p_file h) w1 = 0) ''fread error''
             (Inr (word_of_nat bytes_read, w1))))"

definition FileDisk_write_posix ::
  "bool \<Rightarrow> 'w stdio \<Rightarrow> FileDisk_posix \<Rightarrow> void_ptr \<Rightarrow> u32 \<Rightarrow> 'w \<Rightarrow> error + (u32 \<times> 'w)" where
  "FileDisk_write_posix dbg io h data size' w =
     CE_ASSERT dbg (data \<noteq> NULL) ''Data must be != NULL''
       (stream_call h
       (let (bytes_written, w1) = fwrite io data 1 (unat size') (p_file h) w
        in CE_ASSERT dbg (ferror io (p_file h) w1 = 0) ''fwrite error''
             (Inr (word_of_nat bytes_written, w1))))"

definition FileDisk_flush_posix ::
  "bool \<Rightarrow> 'w stdio \<Rightarrow> FileDisk_posix \<Rightarrow> 'w \<Rightarrow> error + 'w" where
  "FileDisk_flush_posix dbg io h w =
     (let (err, w1) = fflush io (p_file h) w
      in CE_ASSERT dbg (err = 0) ''fflush: errno = %d'' (Inr w1))"

subsection \<open>The raw-handle backend (\<open>CROWN_PLATFORM_WINDOWS\<close>)\<close>

text \<open>
  The part of \<open><windows.h>\<close> the file uses. A \<open>HANDLE\<close> is an integer,
  \<open>INVALID_HANDLE_VALUE\<close> is \<open>(HANDLE)-1\<close>; \<open>DWORD\<close> is \<open>u32\<close> and
  \<open>INVALID_SET_FILE_POINTER\<close> is \<open>(DWORD)-1\<close>; \<open>BOOL\<close> is \<open>int\<close> with \<open>TRUE = 1\<close>. The
  distance of \<open>SetFilePointer\<close> is a \<open>LONG\<close>: the source passes its \<open>u32\<close> argument, so
  the model passes the 32 bits. The arguments the source fixes to \<open>NULL\<close> (security
  attributes, template file, high distance word, overlapped) and the share mode \<open>0\<close>
  are left out of the signatures. \<open>ReadFile\<close> and \<open>WriteFile\<close> return the \<open>BOOL\<close> and
  what they leave in the byte-count out-parameter.
\<close>

type_synonym HANDLE = int

definition INVALID_HANDLE_VALUE :: HANDLE where
  "INVALID_HANDLE_VALUE = -1"

definition INVALID_SET_FILE_POINTER :: u32 where
  "INVALID_SET_FILE_POINTER = -1"

definition TRUE :: int where
  "TRUE = 1"

datatype desired_access = GENERIC_READ | GENERIC_WRITE

datatype creation_disposition =
  CREATE_NEW | CREATE_ALWAYS | OPEN_EXISTING | OPEN_ALWAYS | TRUNCATE_EXISTING

datatype file_attributes = FILE_ATTRIBUTE_NORMAL

datatype move_method = FILE_BEGIN | FILE_CURRENT | FILE_END

record 'w win32 =
  CreateFile :: "string \<Rightarrow> desired_access \<Rightarrow> creation_disposition \<Rightarrow> file_attributes
                   \<Rightarrow> 'w \<Rightarrow> HANDLE \<times> 'w"
  CloseHandle :: "HANDLE \<Rightarrow> 'w \<Rightarrow> 'w"
  GetFileSize :: "HANDLE \<Rightarrow> 'w \<Rightarrow> u32"
  SetFilePointer :: "HANDLE \<Rightarrow> u32 \<Rightarrow> move_method \<Rightarrow> 'w \<Rightarrow> u32 \<times> 'w"
  ReadFile :: "HANDLE \<Rightarrow> void_ptr \<Rightarrow> u32 \<Rightarrow> 'w \<Rightarrow> (int \<times> u32) \<times> 'w"
  WriteFile :: "HANDLE \<Rightarrow> void_ptr \<Rightarrow> u32 \<Rightarrow> 'w \<Rightarrow> (int \<times> u32) \<times> 'w"
  FlushFileBuffers :: "HANDLE \<Rightarrow> 'w \<Rightarrow> int \<times> 'w"

text \<open>\<open>class FileDisk\<close>, Windows members: \<open>HANDLE _file; bool _eof\<close>.\<close>

record FileDisk_windows =
  w_file :: HANDLE
  w_eof :: bool

text \<open>The constructor: \<open>_file(INVALID_HANDLE_VALUE), _eof(false)\<close>.\<close>

definition FileDisk_new_windows :: FileDisk_windows where
  "FileDisk_new_windows = \<lparr>w_file = INVALID_HANDLE_VALUE, w_eof = False\<rparr>"

definition FileDisk_is_open_windows :: "FileDisk_windows \<Rightarrow> bool" where
  "FileDisk_is_open_windows h = (w_file h \<noteq> INVALID_HANDLE_VALUE)"

definition FileDisk_open_windows ::
  "bool \<Rightarrow> 'w win32 \<Rightarrow> FileDisk_windows \<Rightarrow> string \<Rightarrow> FileOpenMode \<Rightarrow> 'w
     \<Rightarrow> error + (FileDisk_windows \<times> 'w)" where
  "FileDisk_open_windows dbg io h path mode w =
     (let (f, w1) = CreateFile io path (if mode = READ then GENERIC_READ else GENERIC_WRITE)
                      OPEN_ALWAYS FILE_ATTRIBUTE_NORMAL w
      in CE_ASSERT dbg (f \<noteq> INVALID_HANDLE_VALUE) ''CreateFile: GetLastError = %d, path = %s''
           (Inr (h\<lparr>w_file := f\<rparr>, w1)))"

definition FileDisk_close_windows ::
  "'w win32 \<Rightarrow> FileDisk_windows \<Rightarrow> 'w \<Rightarrow> FileDisk_windows \<times> 'w" where
  "FileDisk_close_windows io h w =
     (if FileDisk_is_open_windows h
      then (h\<lparr>w_file := INVALID_HANDLE_VALUE\<rparr>, CloseHandle io (w_file h) w)
      else (h, w))"

text \<open>\<open>size\<close> is \<open>return GetFileSize(_file, NULL)\<close>: no assertion, in any build.\<close>

definition FileDisk_size_windows ::
  "'w win32 \<Rightarrow> FileDisk_windows \<Rightarrow> 'w \<Rightarrow> error + (u32 \<times> 'w)" where
  "FileDisk_size_windows io h w = Inr (GetFileSize io (w_file h) w, w)"

definition FileDisk_position_windows ::
  "bool \<Rightarrow> 'w win32 \<Rightarrow> FileDisk_windows \<Rightarrow> 'w \<Rightarrow> error + (u32 \<times> 'w)" where
  "FileDisk_position_windows dbg io h w =
     (let (pos, w1) = SetFilePointer io (w_file h) 0 FILE_CURRENT w
      in CE_ASSERT dbg (pos \<noteq> INVALID_SET_FILE_POINTER) ''SetFilePointer: GetLastError = %d''
           (Inr (pos, w1)))"

definition FileDisk_end_of_file_windows :: "FileDisk_windows \<Rightarrow> error + bool" where
  "FileDisk_end_of_file_windows h = Inr (w_eof h)"

definition FileDisk_seek_windows ::
  "bool \<Rightarrow> 'w win32 \<Rightarrow> FileDisk_windows \<Rightarrow> u32 \<Rightarrow> 'w \<Rightarrow> error + 'w" where
  "FileDisk_seek_windows dbg io h position w =
     (let (err, w1) = SetFilePointer io (w_file h) position FILE_BEGIN w
      in CE_ASSERT dbg (err \<noteq> INVALID_SET_FILE_POINTER) ''SetFilePointer: GetLastError = %d''
           (Inr w1))"

definition FileDisk_seek_to_end_windows ::
  "bool \<Rightarrow> 'w win32 \<Rightarrow> FileDisk_windows \<Rightarrow> 'w \<Rightarrow> error + 'w" where
  "FileDisk_seek_to_end_windows dbg io h w =
     (let (err, w1) = SetFilePointer io (w_file h) 0 FILE_END w
      in CE_ASSERT dbg (err \<noteq> INVALID_SET_FILE_POINTER) ''SetFilePointer: GetLastError = %d''
           (Inr w1))"

definition FileDisk_skip_windows ::
  "bool \<Rightarrow> 'w win32 \<Rightarrow> FileDisk_windows \<Rightarrow> u32 \<Rightarrow> 'w \<Rightarrow> error + 'w" where
  "FileDisk_skip_windows dbg io h bytes w =
     (let (err, w1) = SetFilePointer io (w_file h) bytes FILE_CURRENT w
      in CE_ASSERT dbg (err \<noteq> INVALID_SET_FILE_POINTER) ''SetFilePointer: GetLastError = %d''
           (Inr w1))"

text \<open>
  \<open>read\<close> is the one operation that assigns \<open>_eof\<close>: \<open>_eof = err && bytes_read == 0\<close>,
  after the assertion \<open>err == TRUE\<close>. It returns the handle with the new flag.
\<close>

definition FileDisk_read_windows ::
  "bool \<Rightarrow> 'w win32 \<Rightarrow> FileDisk_windows \<Rightarrow> void_ptr \<Rightarrow> u32 \<Rightarrow> 'w
     \<Rightarrow> error + (u32 \<times> FileDisk_windows \<times> 'w)" where
  "FileDisk_read_windows dbg io h data size' w =
     CE_ASSERT dbg (data \<noteq> NULL) ''Data must be != NULL''
       (let ((err, bytes_read), w1) = ReadFile io (w_file h) data size' w
        in CE_ASSERT dbg (err = TRUE) ''ReadFile: GetLastError = %d''
             (Inr (bytes_read, h\<lparr>w_eof := (err \<noteq> 0 \<and> bytes_read = 0)\<rparr>, w1)))"

text \<open>\<open>write\<close> drops the \<open>BOOL\<close> of \<open>WriteFile\<close> and asserts on the byte count.\<close>

definition FileDisk_write_windows ::
  "bool \<Rightarrow> 'w win32 \<Rightarrow> FileDisk_windows \<Rightarrow> void_ptr \<Rightarrow> u32 \<Rightarrow> 'w \<Rightarrow> error + (u32 \<times> 'w)" where
  "FileDisk_write_windows dbg io h data size' w =
     CE_ASSERT dbg (data \<noteq> NULL) ''Data must be != NULL''
       (let ((ok, bytes_written), w1) = WriteFile io (w_file h) data size' w
        in CE_ASSERT dbg (size' = bytes_written) ''WriteFile: GetLastError = %d''
             (Inr (bytes_written, w1)))"

definition FileDisk_flush_windows ::
  "bool \<Rightarrow> 'w win32 \<Rightarrow> FileDisk_windows \<Rightarrow> 'w \<Rightarrow> error + 'w" where
  "FileDisk_flush_windows dbg io h w =
     (let (err, w1) = FlushFileBuffers io (w_file h) w
      in CE_ASSERT dbg (err \<noteq> 0) ''FlushFileBuffers: GetLastError = %d'' (Inr w1))"

subsection \<open>The facade \<open>FilesystemDisk\<close>\<close>

text \<open>
  The collaborators of the facade, not in the translation unit: \<open>path::is_absolute\<close>
  and \<open>path::join\<close> (core/filesystem/path.h) and the \<open>os::\<close> primitives (core/os.h).
  \<open>path::join(out, a, b)\<close> writes through its first argument, so \<open>join\<close> gets
  the buffer's content before the call and returns its content after it;
  \<open>os::list_files(path, files)\<close> likewise for the caller's vector.
\<close>

record path_utils =
  is_absolute :: "string \<Rightarrow> bool"
  join :: "string \<Rightarrow> string \<Rightarrow> string \<Rightarrow> string"

record 'w os_layer =
  os_exists :: "string \<Rightarrow> 'w \<Rightarrow> bool"
  os_is_directory :: "string \<Rightarrow> 'w \<Rightarrow> bool"
  os_is_file :: "string \<Rightarrow> 'w \<Rightarrow> bool"
  os_mtime :: "string \<Rightarrow> 'w \<Rightarrow> u64"
  os_create_directory :: "string \<Rightarrow> 'w \<Rightarrow> 'w"
  os_delete_directory :: "string \<Rightarrow> 'w \<Rightarrow> 'w"
  os_create_file :: "string \<Rightarrow> 'w \<Rightarrow> 'w"
  os_delete_file :: "string \<Rightarrow> 'w \<Rightarrow> 'w"
  os_list_files :: "string \<Rightarrow> string list \<Rightarrow> 'w \<Rightarrow> string list"

text \<open>
  \<open>class FilesystemDisk\<close>: the prefix. The allocator member only provides the storage
  of the handle objects and is left out. The constructor leaves the prefix empty.
\<close>

record FilesystemDisk =
  fs_prefix :: string

definition FilesystemDisk_new :: FilesystemDisk where
  "FilesystemDisk_new = \<lparr>fs_prefix = []\<rparr>"

definition FilesystemDisk_set_prefix :: "FilesystemDisk \<Rightarrow> string \<Rightarrow> FilesystemDisk" where
  "FilesystemDisk_set_prefix fsys p = fsys\<lparr>fs_prefix := p\<rparr>"

text \<open>
  \<open>get_absolute_path(path, os_path)\<close>: the last argument is the content of \<open>os_path\<close>
  on entry, the result its content on return.
\<close>

definition get_absolute_path ::
  "path_utils \<Rightarrow> FilesystemDisk \<Rightarrow> string \<Rightarrow> string \<Rightarrow> string" where
  "get_absolute_path pu fsys path os_path =
     (if is_absolute pu path then path
      else join pu os_path (fs_prefix fsys) path)"

text \<open>
  The shared opening of every public operation: \<open>CE_ENSURE(NULL != path)\<close>, a fresh
  (empty) \<open>DynamicString abs_path\<close>, \<open>get_absolute_path(path, abs_path)\<close>. A \<open>const char*\<close>
  path is \<open>None\<close> when null. The continuation gets \<open>abs_path.c_str()\<close>.
\<close>

definition with_abs_path ::
  "bool \<Rightarrow> path_utils \<Rightarrow> FilesystemDisk \<Rightarrow> string option \<Rightarrow> (string \<Rightarrow> error + 'a)
     \<Rightarrow> error + 'a" where
  "with_abs_path dbg pu fsys path body =
     CE_ENSURE dbg (path \<noteq> None)
       (case path of
          None \<Rightarrow> Inl Null_Path
        | Some p \<Rightarrow> body (get_absolute_path pu fsys p []))"

definition FilesystemDisk_open_posix ::
  "bool \<Rightarrow> path_utils \<Rightarrow> 'w stdio \<Rightarrow> FilesystemDisk \<Rightarrow> string option \<Rightarrow> FileOpenMode \<Rightarrow> 'w
     \<Rightarrow> error + (FileDisk_posix \<times> 'w)" where
  "FilesystemDisk_open_posix dbg pu io fsys path mode w =
     with_abs_path dbg pu fsys path
       (\<lambda>abs_path. FileDisk_open_posix dbg io FileDisk_new_posix abs_path mode w)"

definition FilesystemDisk_open_windows ::
  "bool \<Rightarrow> path_utils \<Rightarrow> 'w win32 \<Rightarrow> FilesystemDisk \<Rightarrow> string option \<Rightarrow> FileOpenMode \<Rightarrow> 'w
     \<Rightarrow> error + (FileDisk_windows \<times> 'w)" where
  "FilesystemDisk_open_windows dbg pu io fsys path mode w =
     with_abs_path dbg pu fsys path
       (\<lambda>abs_path. FileDisk_open_windows dbg io FileDisk_new_windows abs_path mode w)"

text \<open>
  \<open>close(File& file)\<close> is \<open>CE_DELETE\<close>: the destructor \<open>~FileDisk\<close> runs \<open>close()\<close>, then
  the object is gone; what remains is the world.
\<close>

definition FilesystemDisk_close_posix :: "'w stdio \<Rightarrow> FileDisk_posix \<Rightarrow> 'w \<Rightarrow> 'w" where
  "FilesystemDisk_close_posix io file w = snd (FileDisk_close_posix io file w)"

definition FilesystemDisk_close_windows :: "'w win32 \<Rightarrow> FileDisk_windows \<Rightarrow> 'w \<Rightarrow> 'w" where
  "FilesystemDisk_close_windows io file w = snd (FileDisk_close_windows io file w)"

definition FilesystemDisk_exists ::
  "bool \<Rightarrow> path_utils \<Rightarrow> 'w os_layer \<Rightarrow> FilesystemDisk \<Rightarrow> string option \<Rightarrow> 'w \<Rightarrow> error + bool" where
  "FilesystemDisk_exists dbg pu os fsys path w =
     with_abs_path dbg pu fsys path (\<lambda>abs_path. Inr (os_exists os abs_path w))"

definition FilesystemDisk_is_directory ::
  "bool \<Rightarrow> path_utils \<Rightarrow> 'w os_layer \<Rightarrow> FilesystemDisk \<Rightarrow> string option \<Rightarrow> 'w \<Rightarrow> error + bool" where
  "FilesystemDisk_is_directory dbg pu os fsys path w =
     with_abs_path dbg pu fsys path (\<lambda>abs_path. Inr (os_is_directory os abs_path w))"

definition FilesystemDisk_is_file ::
  "bool \<Rightarrow> path_utils \<Rightarrow> 'w os_layer \<Rightarrow> FilesystemDisk \<Rightarrow> string option \<Rightarrow> 'w \<Rightarrow> error + bool" where
  "FilesystemDisk_is_file dbg pu os fsys path w =
     with_abs_path dbg pu fsys path (\<lambda>abs_path. Inr (os_is_file os abs_path w))"

definition FilesystemDisk_last_modified_time ::
  "bool \<Rightarrow> path_utils \<Rightarrow> 'w os_layer \<Rightarrow> FilesystemDisk \<Rightarrow> string option \<Rightarrow> 'w \<Rightarrow> error + u64" where
  "FilesystemDisk_last_modified_time dbg pu os fsys path w =
     with_abs_path dbg pu fsys path (\<lambda>abs_path. Inr (os_mtime os abs_path w))"

definition FilesystemDisk_create_directory ::
  "bool \<Rightarrow> path_utils \<Rightarrow> 'w os_layer \<Rightarrow> FilesystemDisk \<Rightarrow> string option \<Rightarrow> 'w \<Rightarrow> error + 'w" where
  "FilesystemDisk_create_directory dbg pu os fsys path w =
     with_abs_path dbg pu fsys path
       (\<lambda>abs_path. if \<not> os_exists os abs_path w
                     then Inr (os_create_directory os abs_path w)
                     else Inr w)"

definition FilesystemDisk_delete_directory ::
  "bool \<Rightarrow> path_utils \<Rightarrow> 'w os_layer \<Rightarrow> FilesystemDisk \<Rightarrow> string option \<Rightarrow> 'w \<Rightarrow> error + 'w" where
  "FilesystemDisk_delete_directory dbg pu os fsys path w =
     with_abs_path dbg pu fsys path (\<lambda>abs_path. Inr (os_delete_directory os abs_path w))"

definition FilesystemDisk_create_file ::
  "bool \<Rightarrow> path_utils \<Rightarrow> 'w os_layer \<Rightarrow> FilesystemDisk \<Rightarrow> string option \<Rightarrow> 'w \<Rightarrow> error + 'w" where
  "FilesystemDisk_create_file dbg pu os fsys path w =
     with_abs_path dbg pu fsys path (\<lambda>abs_path. Inr (os_create_file os abs_path w))"

definition FilesystemDisk_delete_file ::
  "bool \<Rightarrow> path_utils \<Rightarrow> 'w os_layer \<Rightarrow> FilesystemDisk \<Rightarrow> string option \<Rightarrow> 'w \<Rightarrow> error + 'w" where
  "FilesystemDisk_delete_file dbg pu os fsys path w =
     with_abs_path dbg pu fsys path (\<lambda>abs_path. Inr (os_delete_file os abs_path w))"

definition FilesystemDisk_list_files ::
  "bool \<Rightarrow> path_utils \<Rightarrow> 'w os_layer \<Rightarrow> FilesystemDisk \<Rightarrow> string option \<Rightarrow> string list \<Rightarrow> 'w
     \<Rightarrow> error + string list" where
  "FilesystemDisk_list_files dbg pu os fsys path files w =
     with_abs_path dbg pu fsys path (\<lambda>abs_path. Inr (os_list_files os abs_path files w))"

subsection \<open>What the wrappers rely on from the native layers\<close>

text \<open>
  Three facts of the native documentation that the cursor and write operations lean on.
  They are stated as predicates on a native layer and appear as hypotheses only.

  \<open>stdio_seek_contract\<close> (ISO C 7.21.9 for a binary stream): after a successful \<open>fseek\<close>,
  \<open>ftell\<close> reports the requested offset, counted from the start, from the old position
  or from the byte length \<open>len\<close> of the stream's file; seeking does not change that
  length; \<open>ftell\<close> returns \<open>-1L\<close> or an offset, never less.
\<close>

definition stdio_seek_contract :: "'w stdio \<Rightarrow> (FILE_ptr \<Rightarrow> 'w \<Rightarrow> int) \<Rightarrow> bool" where
  "stdio_seek_contract io len \<longleftrightarrow>
     (\<forall>f off wh w w1. fseek io f off wh w = (0, w1) \<longrightarrow>
        ftell io f w1 =
          (case wh of SEEK_SET \<Rightarrow> off | SEEK_CUR \<Rightarrow> ftell io f w + off | SEEK_END \<Rightarrow> len f w + off)
        \<and> len f w1 = len f w)
     \<and> (\<forall>f w. - 1 \<le> ftell io f w)"

text \<open>
  \<open>stdio_write_contract\<close> (ISO C 7.21.8.2): \<open>fwrite\<close> returns at most the element count
  it was given, and less only if a write error was met, which sets the stream's error
  indicator.
\<close>

definition stdio_write_contract :: "'w stdio \<Rightarrow> bool" where
  "stdio_write_contract io \<longleftrightarrow>
     (\<forall>d n f w k w1. fwrite io d 1 n f w = (k, w1) \<longrightarrow>
        k \<le> n \<and> (k < n \<longrightarrow> ferror io f w1 \<noteq> 0))"


subsection \<open>In-memory native layers\<close>

text \<open>
  Small instances of the three interfaces, to run the operations on concrete inputs. The
  world of the stream layer is a set of existing paths and one stream (address 1) with
  a byte length, a position, the two indicators and the room left on the device.
\<close>

record mem_file =
  m_paths :: "string list"
  m_len :: nat
  m_pos :: nat
  m_eof :: bool
  m_err :: bool
  m_room :: nat

definition mem_fopen :: "string \<Rightarrow> string \<Rightarrow> mem_file \<Rightarrow> FILE_ptr \<times> mem_file" where
  "mem_fopen path mode w =
     (if mode = ''rb''
      then (if path \<in> set (m_paths w) then (1, w\<lparr>m_pos := 0\<rparr>) else (NULL, w))
      else (1, w\<lparr>m_paths := List.insert path (m_paths w), m_len := 0, m_pos := 0\<rparr>))"

definition mem_ftell :: "FILE_ptr \<Rightarrow> mem_file \<Rightarrow> int" where
  "mem_ftell f w = (if f = 1 then int (m_pos w) else - 1)"

definition mem_fseek :: "FILE_ptr \<Rightarrow> int \<Rightarrow> whence \<Rightarrow> mem_file \<Rightarrow> int \<times> mem_file" where
  "mem_fseek f off wh w =
     (let target = (case wh of SEEK_SET \<Rightarrow> off | SEEK_CUR \<Rightarrow> int (m_pos w) + off
                             | SEEK_END \<Rightarrow> int (m_len w) + off)
      in if f = 1 \<and> 0 \<le> target then (0, w\<lparr>m_pos := nat target, m_eof := False\<rparr>)
         else (- 1, w))"

definition mem_fread :: "void_ptr \<Rightarrow> nat \<Rightarrow> nat \<Rightarrow> FILE_ptr \<Rightarrow> mem_file \<Rightarrow> nat \<times> mem_file" where
  "mem_fread d sz n f w =
     (let k = min (sz * n) (m_len w - m_pos w)
      in (k, w\<lparr>m_pos := m_pos w + k, m_eof := (m_eof w \<or> k < sz * n)\<rparr>))"

definition mem_fwrite :: "void_ptr \<Rightarrow> nat \<Rightarrow> nat \<Rightarrow> FILE_ptr \<Rightarrow> mem_file \<Rightarrow> nat \<times> mem_file" where
  "mem_fwrite d sz n f w =
     (let k = min n (m_room w)
      in (k, w\<lparr>m_pos := m_pos w + k, m_len := max (m_len w) (m_pos w + k),
               m_room := m_room w - k, m_err := (m_err w \<or> k < n)\<rparr>))"

definition mem_stdio :: "mem_file stdio" where
  "mem_stdio = \<lparr>fopen = mem_fopen, fclose = (\<lambda>f w. w), ftell = mem_ftell, fseek = mem_fseek,
     feof = (\<lambda>f w. if m_eof w then 1 else 0), ferror = (\<lambda>f w. if m_err w then 1 else 0),
     fread = mem_fread, fwrite = mem_fwrite, fflush = (\<lambda>f w. (0, w))\<rparr>"

definition mem_len :: "FILE_ptr \<Rightarrow> mem_file \<Rightarrow> int" where
  "mem_len f w = int (m_len w)"

text \<open>A world with one 10-byte file, the stream at offset 4, 100 bytes of room.\<close>

definition mem_world :: mem_file where
  "mem_world = \<lparr>m_paths = [''/data/game/levels/intro.bin''], m_len = 10, m_pos = 4,
     m_eof = False, m_err = False, m_room = 100\<rparr>"

definition mem_handle :: FileDisk_posix where
  "mem_handle = \<lparr>p_file = 1\<rparr>"

text \<open>The OS primitives over the same world: every path is a plain file.\<close>

definition mem_os :: "mem_file os_layer" where
  "mem_os = \<lparr>os_exists = (\<lambda>p w. p \<in> set (m_paths w)),
     os_is_directory = (\<lambda>p w. False),
     os_is_file = (\<lambda>p w. p \<in> set (m_paths w)),
     os_mtime = (\<lambda>p w. 0),
     os_create_directory = (\<lambda>p w. w\<lparr>m_paths := p # m_paths w\<rparr>),
     os_delete_directory = (\<lambda>p w. w\<lparr>m_paths := removeAll p (m_paths w)\<rparr>),
     os_create_file = (\<lambda>p w. w\<lparr>m_paths := p # m_paths w\<rparr>),
     os_delete_file = (\<lambda>p w. w\<lparr>m_paths := removeAll p (m_paths w)\<rparr>),
     os_list_files = (\<lambda>p files w. files @ m_paths w)\<rparr>"

text \<open>
  Modelled from the spec: \<open>path::is_absolute\<close> and \<open>path::join\<close> (core/filesystem/path.cpp
  is not among the sources), in POSIX syntax. Section 6: "\<open>is_absolute(path) -> bool\<close>,
  \<open>join(out, prefix, path)\<close> producing platform-correct separators"; section 8: prefix
  "/data/game" and path "levels/intro.bin" resolve to "/data/game/levels/intro.bin".
\<close>

definition posix_path_utils :: path_utils where
  "posix_path_utils = \<lparr>is_absolute = (\<lambda>p. p \<noteq> [] \<and> hd p = CHR ''/''),
     join = (\<lambda>out a b. out @ a @ ''/'' @ b)\<rparr>"

text \<open>
  The world of the raw-handle layer: the existing paths and one file (handle 1) with a
  32-bit size and pointer. \<open>CreateFile\<close> follows the documented creation dispositions;
  a pointer move that would leave \<open>0 .. 2^32 - 1\<close> fails.
\<close>

record win_file =
  wm_paths :: "string list"
  wm_len :: u32
  wm_ptr :: u32

definition mem_CreateFile ::
  "string \<Rightarrow> desired_access \<Rightarrow> creation_disposition \<Rightarrow> file_attributes \<Rightarrow> win_file
     \<Rightarrow> HANDLE \<times> win_file" where
  "mem_CreateFile path acc disp attr w =
     (let present = (path \<in> set (wm_paths w));
          created = w\<lparr>wm_paths := List.insert path (wm_paths w), wm_len := 0, wm_ptr := 0\<rparr>
      in case disp of
           CREATE_NEW \<Rightarrow> if present then (INVALID_HANDLE_VALUE, w) else (1, created)
         | CREATE_ALWAYS \<Rightarrow> (1, created)
         | OPEN_EXISTING \<Rightarrow> if present then (1, w\<lparr>wm_ptr := 0\<rparr>) else (INVALID_HANDLE_VALUE, w)
         | OPEN_ALWAYS \<Rightarrow> if present then (1, w\<lparr>wm_ptr := 0\<rparr>) else (1, created)
         | TRUNCATE_EXISTING \<Rightarrow>
             if present then (1, w\<lparr>wm_len := 0, wm_ptr := 0\<rparr>) else (INVALID_HANDLE_VALUE, w))"

definition mem_SetFilePointer ::
  "HANDLE \<Rightarrow> u32 \<Rightarrow> move_method \<Rightarrow> win_file \<Rightarrow> u32 \<times> win_file" where
  "mem_SetFilePointer h d m w =
     (let base = (case m of FILE_BEGIN \<Rightarrow> 0 | FILE_CURRENT \<Rightarrow> wm_ptr w | FILE_END \<Rightarrow> wm_len w);
          target = uint base + sint d
      in if h = 1 \<and> 0 \<le> target \<and> target < 2 ^ 32
         then (base + d, w\<lparr>wm_ptr := base + d\<rparr>)
         else (INVALID_SET_FILE_POINTER, w))"

definition mem_ReadFile :: "HANDLE \<Rightarrow> void_ptr \<Rightarrow> u32 \<Rightarrow> win_file \<Rightarrow> (int \<times> u32) \<times> win_file" where
  "mem_ReadFile h d n w =
     (if h = 1
      then (let k = min n (wm_len w - wm_ptr w) in ((1, k), w\<lparr>wm_ptr := wm_ptr w + k\<rparr>))
      else ((0, 0), w))"

definition mem_WriteFile :: "HANDLE \<Rightarrow> void_ptr \<Rightarrow> u32 \<Rightarrow> win_file \<Rightarrow> (int \<times> u32) \<times> win_file" where
  "mem_WriteFile h d n w =
     (if h = 1
      then ((1, n), w\<lparr>wm_ptr := wm_ptr w + n, wm_len := max (wm_len w) (wm_ptr w + n)\<rparr>)
      else ((0, 0), w))"

definition mem_win32 :: "win_file win32" where
  "mem_win32 = \<lparr>CreateFile = mem_CreateFile, CloseHandle = (\<lambda>h w. w),
     GetFileSize = (\<lambda>h w. if h = 1 then wm_len w else - 1),
     SetFilePointer = mem_SetFilePointer, ReadFile = mem_ReadFile, WriteFile = mem_WriteFile,
     FlushFileBuffers = (\<lambda>h w. (if h = 1 then 1 else 0, w))\<rparr>"

text \<open>A world with one 10-byte file, its pointer at offset 4.\<close>

definition win_world :: win_file where
  "win_world = \<lparr>wm_paths = [''C:/data/intro.bin''], wm_len = 10, wm_ptr = 4\<rparr>"

definition win_handle :: FileDisk_windows where
  "win_handle = \<lparr>w_file = 1, w_eof = False\<rparr>"

section \<open>Properties\<close>

lemma with_abs_path_Some:
  "with_abs_path dbg pu fsys (Some p) body = body (get_absolute_path pu fsys p [])"
  by (simp add: with_abs_path_def CE_ENSURE_def CE_ASSERT_def)

subsection \<open>Construction and close\<close>

text \<open>
  C10. A freshly constructed handle is closed on both backends: the native reference
  is the sentinel (\<open>NULL\<close>, \<open>INVALID_HANDLE_VALUE\<close>), so \<open>is_open()\<close> is false before any
  \<open>open\<close>; on the raw-handle backend the end-of-file flag starts false, so
  \<open>end_of_file()\<close> on a new handle returns false.
\<close>

theorem fresh_handle_is_closed:
  "\<not> FileDisk_is_open_posix FileDisk_new_posix
   \<and> p_file FileDisk_new_posix = NULL
   \<and> \<not> FileDisk_is_open_windows FileDisk_new_windows
   \<and> w_file FileDisk_new_windows = INVALID_HANDLE_VALUE
   \<and> FileDisk_end_of_file_windows FileDisk_new_windows = Inr False"
  by (simp add: FileDisk_is_open_posix_def FileDisk_new_posix_def FileDisk_is_open_windows_def
      FileDisk_new_windows_def FileDisk_end_of_file_windows_def)

text \<open>
  C5. \<open>close()\<close> is idempotent and cannot fail (it has no error outcome at all). On
  either backend, after \<open>close\<close> the handle is not open; the world after it is the world
  after one native release (\<open>fclose\<close>, \<open>CloseHandle\<close>) if the handle was open and the
  unchanged world otherwise; a second \<open>close\<close>, and the destructor run by the facade's
  \<open>close\<close>, change neither the handle nor the world, so the native resource is released
  at most once. Closing a handle that was never opened does nothing.
\<close>

theorem close_idempotent:
  "(case FileDisk_close_posix io h w of (h1, w1) \<Rightarrow>
      \<not> FileDisk_is_open_posix h1
      \<and> w1 = (if FileDisk_is_open_posix h then fclose io (p_file h) w else w)
      \<and> FileDisk_close_posix io h1 w1 = (h1, w1)
      \<and> FilesystemDisk_close_posix io h1 w1 = w1)
   \<and> FileDisk_close_posix io FileDisk_new_posix w = (FileDisk_new_posix, w)
   \<and> (case FileDisk_close_windows io2 h2 w2 of (h3, w3) \<Rightarrow>
      \<not> FileDisk_is_open_windows h3
      \<and> w3 = (if FileDisk_is_open_windows h2 then CloseHandle io2 (w_file h2) w2 else w2)
      \<and> FileDisk_close_windows io2 h3 w3 = (h3, w3)
      \<and> FilesystemDisk_close_windows io2 h3 w3 = w3)
   \<and> FileDisk_close_windows io2 FileDisk_new_windows w2 = (FileDisk_new_windows, w2)"
  by (simp add: FileDisk_close_posix_def FileDisk_is_open_posix_def FileDisk_new_posix_def
      FilesystemDisk_close_posix_def FileDisk_close_windows_def FileDisk_is_open_windows_def
      FileDisk_new_windows_def FilesystemDisk_close_windows_def)

subsection \<open>Path resolution\<close>

text \<open>
  C1. For a non-null path \<open>p\<close>, \<open>get_absolute_path\<close> yields \<open>p\<close> itself when \<open>p\<close> is
  absolute, whatever the prefix is set to (the empty one included), and
  \<open>join(prefix, p)\<close> when \<open>p\<close> is relative. Each public operation of the facade (\<open>open\<close>
  on either backend, \<open>exists\<close>, \<open>is_directory\<close>, \<open>is_file\<close>, \<open>last_modified_time\<close>,
  \<open>create_directory\<close>, \<open>delete_directory\<close>, \<open>create_file\<close>, \<open>delete_file\<close>, \<open>list_files\<close>)
  hands its collaborator the path resolved this way, starting from an empty buffer.
\<close>

theorem path_resolution:
  "get_absolute_path pu fsys p out =
     (if is_absolute pu p then p else join pu out (fs_prefix fsys) p)
   \<and> (is_absolute pu p \<longrightarrow> get_absolute_path pu (FilesystemDisk_set_prefix fsys pre) p out = p)
   \<and> (\<not> is_absolute pu p \<longrightarrow>
        get_absolute_path pu (FilesystemDisk_set_prefix fsys pre) p out = join pu out pre p)
   \<and> FilesystemDisk_open_posix dbg pu io fsys (Some p) mode w =
       FileDisk_open_posix dbg io FileDisk_new_posix (get_absolute_path pu fsys p []) mode w
   \<and> FilesystemDisk_open_windows dbg pu io2 fsys (Some p) mode w2 =
       FileDisk_open_windows dbg io2 FileDisk_new_windows (get_absolute_path pu fsys p []) mode w2
   \<and> FilesystemDisk_exists dbg pu os fsys (Some p) w =
       Inr (os_exists os (get_absolute_path pu fsys p []) w)
   \<and> FilesystemDisk_is_directory dbg pu os fsys (Some p) w =
       Inr (os_is_directory os (get_absolute_path pu fsys p []) w)
   \<and> FilesystemDisk_is_file dbg pu os fsys (Some p) w =
       Inr (os_is_file os (get_absolute_path pu fsys p []) w)
   \<and> FilesystemDisk_last_modified_time dbg pu os fsys (Some p) w =
       Inr (os_mtime os (get_absolute_path pu fsys p []) w)
   \<and> FilesystemDisk_create_directory dbg pu os fsys (Some p) w =
       Inr (if os_exists os (get_absolute_path pu fsys p []) w then w
            else os_create_directory os (get_absolute_path pu fsys p []) w)
   \<and> FilesystemDisk_delete_directory dbg pu os fsys (Some p) w =
       Inr (os_delete_directory os (get_absolute_path pu fsys p []) w)
   \<and> FilesystemDisk_create_file dbg pu os fsys (Some p) w =
       Inr (os_create_file os (get_absolute_path pu fsys p []) w)
   \<and> FilesystemDisk_delete_file dbg pu os fsys (Some p) w =
       Inr (os_delete_file os (get_absolute_path pu fsys p []) w)
   \<and> FilesystemDisk_list_files dbg pu os fsys (Some p) files w =
       Inr (os_list_files os (get_absolute_path pu fsys p []) files w)"
  by (simp add: with_abs_path_Some get_absolute_path_def FilesystemDisk_set_prefix_def
      FilesystemDisk_open_posix_def FilesystemDisk_open_windows_def FilesystemDisk_exists_def
      FilesystemDisk_is_directory_def FilesystemDisk_is_file_def
      FilesystemDisk_last_modified_time_def FilesystemDisk_create_directory_def
      FilesystemDisk_delete_directory_def FilesystemDisk_create_file_def
      FilesystemDisk_delete_file_def FilesystemDisk_list_files_def)

text \<open>
  The scenario of the specification: with prefix "/data/game", the absolute path
  "/abs/override.bin" resolves to itself and "levels/intro.bin" resolves to
  "/data/game/levels/intro.bin", which \<open>exists\<close> then finds in the in-memory world.
\<close>

theorem path_resolution_witness:
  "is_absolute posix_path_utils ''/abs/override.bin''
   \<and> get_absolute_path posix_path_utils
        (FilesystemDisk_set_prefix FilesystemDisk_new ''/data/game'') ''/abs/override.bin'' []
       = ''/abs/override.bin''
   \<and> \<not> is_absolute posix_path_utils ''levels/intro.bin''
   \<and> get_absolute_path posix_path_utils
        (FilesystemDisk_set_prefix FilesystemDisk_new ''/data/game'') ''levels/intro.bin'' []
       = ''/data/game/levels/intro.bin''
   \<and> FilesystemDisk_exists True posix_path_utils mem_os
        (FilesystemDisk_set_prefix FilesystemDisk_new ''/data/game'') (Some ''levels/intro.bin'')
        mem_world = Inr True"
  using path_resolution [where pu = posix_path_utils and fsys = FilesystemDisk_new
      and pre = "''/data/game''" and p = "''/abs/override.bin''" and out = "[]"]
    path_resolution [where pu = posix_path_utils and fsys = FilesystemDisk_new
      and pre = "''/data/game''" and p = "''levels/intro.bin''" and out = "[]"]
    path_resolution [where pu = posix_path_utils
      and fsys = "FilesystemDisk_set_prefix FilesystemDisk_new ''/data/game''"
      and p = "''levels/intro.bin''" and dbg = True and os = mem_os and w = mem_world]
  by (simp add: posix_path_utils_def FilesystemDisk_set_prefix_def FilesystemDisk_new_def
      mem_os_def mem_world_def get_absolute_path_def FilesystemDisk_exists_def with_abs_path_Some)

subsection \<open>Helper facts\<close>

text \<open>
  What a normal return in an assertion-enabled build says about the native calls, and
  that a build without assertions returns the same result whenever the
  assertion-enabled build returns at all.
\<close>

lemma size_posix_enabled_Inr:
  "FileDisk_size_posix True io h w = Inr (n, w2) \<longleftrightarrow>
     (\<exists>w1. p_file h \<noteq> NULL
        \<and> ftell io (p_file h) w \<noteq> - 1
        \<and> fseek io (p_file h) 0 SEEK_END w = (0, w1)
        \<and> ftell io (p_file h) w1 \<noteq> - 1
        \<and> fseek io (p_file h) (ftell io (p_file h) w) SEEK_SET w1 = (0, w2)
        \<and> n = word_of_int (ftell io (p_file h) w1))"
  by (auto simp: FileDisk_size_posix_def stream_call_def CE_ASSERT_def Let_def
      split: prod.splits if_splits)

lemma size_posix_any_build:
  "FileDisk_size_posix True io h w = Inr r \<Longrightarrow> FileDisk_size_posix dbg io h w = Inr r"
  by (auto simp: FileDisk_size_posix_def stream_call_def CE_ASSERT_def Let_def
      split: prod.splits if_splits)

lemma position_posix_eq:
  "FileDisk_position_posix dbg io h w =
     (if p_file h = NULL then Inl Null_Stream
      else if dbg \<and> ftell io (p_file h) w = - 1 then Inl (Abort ''ftell: errno = %d'')
      else Inr (word_of_int (ftell io (p_file h) w), w))"
  by (simp add: FileDisk_position_posix_def stream_call_def CE_ASSERT_def Let_def)



















text \<open>The in-memory layers meet the three native contracts.\<close>

lemma mem_stdio_seek_contract: "stdio_seek_contract mem_stdio mem_len"
  by (auto simp: stdio_seek_contract_def mem_stdio_def mem_fseek_def mem_ftell_def mem_len_def
      Let_def split: whence.splits if_splits)

lemma mem_stdio_write_contract: "stdio_write_contract mem_stdio"
  by (auto simp: stdio_write_contract_def mem_stdio_def mem_fwrite_def Let_def)



lemmas mem_stdio_simps = mem_stdio_def mem_fopen_def mem_ftell_def mem_fseek_def mem_fread_def
  mem_fwrite_def mem_len_def mem_world_def mem_handle_def

lemmas mem_win32_simps = mem_win32_def mem_ReadFile_def mem_WriteFile_def mem_SetFilePointer_def
  mem_CreateFile_def win_world_def win_handle_def

lemmas word_consts = NULL_def INVALID_HANDLE_VALUE_def INVALID_SET_FILE_POINTER_def TRUE_def

subsection \<open>Facade: conditional directory creation\<close>

text \<open>
  C8. \<open>create_directory(path)\<close> is conditional on \<open>os::exists\<close> of the resolved path:
  when the resolved path exists the operation returns the world unchanged (no creation
  call); when it does not, the resulting world is the one after exactly one
  \<open>os::create_directory\<close> on the resolved path. \<open>delete_directory\<close>, \<open>create_file\<close> and
  \<open>delete_file\<close> resolve and delegate with no existence check: their result is always
  the world after the one OS call.
\<close>

theorem create_directory_conditional:
  "(os_exists os (get_absolute_path pu fsys p []) w \<longrightarrow>
      FilesystemDisk_create_directory dbg pu os fsys (Some p) w = Inr w)
   \<and> (\<not> os_exists os (get_absolute_path pu fsys p []) w \<longrightarrow>
      FilesystemDisk_create_directory dbg pu os fsys (Some p) w =
        Inr (os_create_directory os (get_absolute_path pu fsys p []) w))
   \<and> FilesystemDisk_delete_directory dbg pu os fsys (Some p) w =
        Inr (os_delete_directory os (get_absolute_path pu fsys p []) w)
   \<and> FilesystemDisk_create_file dbg pu os fsys (Some p) w =
        Inr (os_create_file os (get_absolute_path pu fsys p []) w)
   \<and> FilesystemDisk_delete_file dbg pu os fsys (Some p) w =
        Inr (os_delete_file os (get_absolute_path pu fsys p []) w)"
  by (simp add: with_abs_path_Some FilesystemDisk_create_directory_def
      FilesystemDisk_delete_directory_def FilesystemDisk_create_file_def
      FilesystemDisk_delete_file_def)

text \<open>
  In the in-memory world "/data/game/levels/intro.bin" exists and "/data/game/saves"
  does not: the first call leaves the world as it is, the second adds the path.
\<close>

theorem create_directory_conditional_witness:
  "os_exists mem_os (get_absolute_path posix_path_utils
        (FilesystemDisk_set_prefix FilesystemDisk_new ''/data/game'') ''levels/intro.bin'' [])
      mem_world
   \<and> FilesystemDisk_create_directory True posix_path_utils mem_os
        (FilesystemDisk_set_prefix FilesystemDisk_new ''/data/game'') (Some ''levels/intro.bin'')
        mem_world = Inr mem_world
   \<and> \<not> os_exists mem_os (get_absolute_path posix_path_utils
        (FilesystemDisk_set_prefix FilesystemDisk_new ''/data/game'') ''saves'' []) mem_world
   \<and> FilesystemDisk_create_directory True posix_path_utils mem_os
        (FilesystemDisk_set_prefix FilesystemDisk_new ''/data/game'') (Some ''saves'') mem_world
       = Inr (mem_world\<lparr>m_paths := [''/data/game/saves'', ''/data/game/levels/intro.bin'']\<rparr>)"
  using create_directory_conditional [where os = mem_os and pu = posix_path_utils
      and fsys = "FilesystemDisk_set_prefix FilesystemDisk_new ''/data/game''"
      and p = "''levels/intro.bin''" and w = mem_world and dbg = True]
    create_directory_conditional [where os = mem_os and pu = posix_path_utils
      and fsys = "FilesystemDisk_set_prefix FilesystemDisk_new ''/data/game''"
      and p = "''saves''" and w = mem_world and dbg = True]
  by (simp add: posix_path_utils_def FilesystemDisk_set_prefix_def FilesystemDisk_new_def
      mem_os_def mem_world_def get_absolute_path_def)

subsection \<open>Raw-handle backend: the end-of-file flag\<close>

text \<open>
  C2. On the raw-handle backend, after a \<open>read\<close> that returns, \<open>end_of_file()\<close> is true
  exactly if the native \<open>ReadFile\<close> reported success (a non-zero \<open>BOOL\<close>) and the read
  returned zero bytes. With assertions enabled a returning read has succeeded natively,
  so the flag is simply "zero bytes were read": a zero-byte read sets it and a later
  successful non-empty read clears it. \<open>read\<close> is the only operation that assigns the
  flag: \<open>open\<close> and \<open>close\<close> keep it, and the other operations do not change the handle
  object at all (in the model they do not return one).
\<close>

theorem raw_handle_eof_follows_last_read:
  "(FileDisk_read_windows dbg io h data n w = Inr (r, h1, w1) \<longrightarrow>
      FileDisk_end_of_file_windows h1 =
        Inr (fst (fst (ReadFile io (w_file h) data n w)) \<noteq> 0 \<and> r = 0)
      \<and> r = snd (fst (ReadFile io (w_file h) data n w))
      \<and> w_file h1 = w_file h)
   \<and> (FileDisk_read_windows True io h data n w = Inr (r, h1, w1) \<longrightarrow>
      fst (fst (ReadFile io (w_file h) data n w)) = TRUE
      \<and> FileDisk_end_of_file_windows h1 = Inr (r = 0))
   \<and> (FileDisk_open_windows dbg io h path mode w = Inr (h2, w2) \<longrightarrow>
      FileDisk_end_of_file_windows h2 = FileDisk_end_of_file_windows h)
   \<and> FileDisk_end_of_file_windows (fst (FileDisk_close_windows io h w)) =
      FileDisk_end_of_file_windows h"
  by (auto simp: FileDisk_read_windows_def FileDisk_end_of_file_windows_def
      FileDisk_open_windows_def FileDisk_close_windows_def CE_ASSERT_def TRUE_def
      split: prod.splits if_splits)

text \<open>
  A read at the end of the 10-byte file returns 0 and sets the flag; a read of 8 bytes
  from offset 4 returns 6 and clears it; reopening keeps the flag.
\<close>

theorem raw_handle_eof_follows_last_read_witness:
  "FileDisk_read_windows True mem_win32 win_handle 7 8 (win_world\<lparr>wm_ptr := 10\<rparr>)
     = Inr (0, win_handle\<lparr>w_eof := True\<rparr>, win_world\<lparr>wm_ptr := 10\<rparr>)
   \<and> FileDisk_end_of_file_windows (win_handle\<lparr>w_eof := True\<rparr>) = Inr True
   \<and> FileDisk_read_windows True mem_win32 (win_handle\<lparr>w_eof := True\<rparr>) 7 8 win_world
     = Inr (6, win_handle, win_world\<lparr>wm_ptr := 10\<rparr>)
   \<and> FileDisk_end_of_file_windows win_handle = Inr False
   \<and> FileDisk_open_windows True mem_win32 (win_handle\<lparr>w_eof := True\<rparr>) ''C:/data/intro.bin'' READ
       win_world = Inr (win_handle\<lparr>w_eof := True\<rparr>, win_world\<lparr>wm_ptr := 0\<rparr>)"
  using raw_handle_eof_follows_last_read [where dbg = True and io = mem_win32
      and h = win_handle and data = 7 and n = 8 and w = "win_world\<lparr>wm_ptr := 10\<rparr>"
      and r = 0 and ?h1.0 = "win_handle\<lparr>w_eof := True\<rparr>"
      and ?w1.0 = "win_world\<lparr>wm_ptr := 10\<rparr>"]
    raw_handle_eof_follows_last_read [where dbg = True and io = mem_win32
      and h = "win_handle\<lparr>w_eof := True\<rparr>" and data = 7 and n = 8 and w = win_world
      and r = 6 and ?h1.0 = win_handle and ?w1.0 = "win_world\<lparr>wm_ptr := 10\<rparr>"
      and path = "''C:/data/intro.bin''" and mode = READ
      and ?h2.0 = "win_handle\<lparr>w_eof := True\<rparr>" and ?w2.0 = "win_world\<lparr>wm_ptr := 0\<rparr>"]
  by (simp add: mem_win32_simps FileDisk_read_windows_def FileDisk_end_of_file_windows_def
      FileDisk_open_windows_def CE_ASSERT_def TRUE_def NULL_def INVALID_HANDLE_VALUE_def)

subsection \<open>No partial writes\<close>

text \<open>
  C9, as the specification states it: \<open>write\<close> never returns a count smaller than \<open>n\<close>,
  on either backend. The count is guarded by \<open>CE_ASSERT\<close> alone. In a build without
  assertions, on an open stream handle with a non-null buffer, a write of 5 bytes to a
  device with room for 3 returns 3 (the stream layer meets the \<open>fwrite\<close> contract: the
  short count sets the error indicator, which nothing inspects in that build).
\<close>

theorem write_short_count_counterexample:
  "FileDisk_is_open_posix mem_handle
   \<and> (7 :: void_ptr) \<noteq> NULL
   \<and> stdio_write_contract mem_stdio
   \<and> FileDisk_write_posix False mem_stdio mem_handle 7 5 (mem_world\<lparr>m_room := 3\<rparr>)
       = Inr (3, mem_world\<lparr>m_pos := 7, m_err := True, m_room := 0\<rparr>)"
  using mem_stdio_write_contract
  by (simp add: FileDisk_write_posix_def FileDisk_is_open_posix_def CE_ASSERT_def
      stream_call_def mem_stdio_simps word_consts)

text \<open>
  C9, amended: in a build that enables assertions, \<open>write(buffer, n)\<close> on an open handle
  has two outcomes only: it is fatal (one of its two assertions fails), or it returns
  exactly \<open>n\<close>; a smaller count is never returned. On the raw-handle backend this is the
  assertion \<open>size == bytes_written\<close>. On the buffered-stream backend the assertion is on
  \<open>ferror(_file)\<close>, so the statement holds for every stream layer in which a short
  \<open>fwrite\<close> sets the error indicator (\<open>stdio_write_contract\<close>, the behaviour ISO C
  prescribes).
\<close>

theorem write_complete_or_fatal:
  "(stdio_write_contract io \<and> FileDisk_is_open_posix h \<longrightarrow>
      (case FileDisk_write_posix True io h data n w of
         Inl e \<Rightarrow> e = Abort ''Data must be != NULL'' \<or> e = Abort ''fwrite error''
       | Inr (r, w1) \<Rightarrow> r = n))
   \<and> (case FileDisk_write_windows True io2 h2 data n w2 of
         Inl e \<Rightarrow> e = Abort ''Data must be != NULL'' \<or> e = Abort ''WriteFile: GetLastError = %d''
       | Inr (r, w1) \<Rightarrow> r = n)"
proof -
  have win: "case FileDisk_write_windows True io2 h2 data n w2 of
         Inl e \<Rightarrow> e = Abort ''Data must be != NULL'' \<or> e = Abort ''WriteFile: GetLastError = %d''
       | Inr (r, w1) \<Rightarrow> r = n"
    by (simp add: FileDisk_write_windows_def CE_ASSERT_def split: prod.splits)
  have posix: "case FileDisk_write_posix True io h data n w of
         Inl e \<Rightarrow> e = Abort ''Data must be != NULL'' \<or> e = Abort ''fwrite error''
       | Inr (r, w1) \<Rightarrow> r = n"
    if c: "stdio_write_contract io" and o: "FileDisk_is_open_posix h"
  proof -
    from o have stream: "p_file h \<noteq> NULL"
      by (simp add: FileDisk_is_open_posix_def)
    obtain k w1 where fw: "fwrite io data 1 (unat n) (p_file h) w = (k, w1)"
      by (cases "fwrite io data 1 (unat n) (p_file h) w")
    with c have le: "k \<le> unat n" and short: "k < unat n \<longrightarrow> ferror io (p_file h) w1 \<noteq> 0"
      unfolding stdio_write_contract_def by blast+
    show ?thesis
    proof (cases "ferror io (p_file h) w1 = 0")
      case True
      with le short have "k = unat n" by auto
      with fw True stream show ?thesis
        by (simp add: FileDisk_write_posix_def stream_call_def CE_ASSERT_def)
    next
      case False
      with fw stream show ?thesis
        by (simp add: FileDisk_write_posix_def stream_call_def CE_ASSERT_def)
    qed
  qed
  from win posix show ?thesis by blast
qed

text \<open>
  With assertions enabled: writing 5 bytes with room for 100 returns 5; with room for 3
  the stream reports a write error and the call is fatal; the raw-handle write of 5
  bytes returns 5.
\<close>

theorem write_complete_or_fatal_witness:
  "stdio_write_contract mem_stdio
   \<and> FileDisk_is_open_posix mem_handle
   \<and> FileDisk_write_posix True mem_stdio mem_handle 7 5 mem_world
       = Inr (5, mem_world\<lparr>m_pos := 9, m_room := 95\<rparr>)
   \<and> FileDisk_write_posix True mem_stdio mem_handle 7 5 (mem_world\<lparr>m_room := 3\<rparr>)
       = Inl (Abort ''fwrite error'')
   \<and> FileDisk_write_windows True mem_win32 win_handle 7 5 win_world
       = Inr (5, win_world\<lparr>wm_ptr := 9\<rparr>)"
  using write_complete_or_fatal [where io = mem_stdio and h = mem_handle and data = 7 and n = 5
      and w = mem_world and ?io2.0 = mem_win32 and ?h2.0 = win_handle and ?w2.0 = win_world]
    write_complete_or_fatal [where io = mem_stdio and h = mem_handle and data = 7 and n = 5
      and w = "mem_world\<lparr>m_room := 3\<rparr>" and ?io2.0 = mem_win32 and ?h2.0 = win_handle
      and ?w2.0 = win_world]
    mem_stdio_write_contract
  by (simp add: FileDisk_write_posix_def FileDisk_write_windows_def FileDisk_is_open_posix_def
      CE_ASSERT_def stream_call_def mem_stdio_simps mem_win32_simps word_consts)

subsection \<open>Size and cursor\<close>

text \<open>
  C6. \<open>size()\<close> returns the byte length of the resource and leaves the cursor where it
  was. Buffered-stream backend, for every stream layer that meets
  \<open>stdio_seek_contract\<close>: if \<open>size()\<close> returns in an assertion-enabled build (all four
  native calls succeeded), it returns the same in any build, the value is the length
  \<open>len\<close> of the stream's file converted to \<open>u32\<close> (equal to it below \<open>2^32\<close>, the
  interface's stated cap), and \<open>position()\<close> returns the same offset after \<open>size()\<close> as
  before it. Raw-handle backend: \<open>size()\<close> is the answer of \<open>GetFileSize\<close> and the world,
  hence \<open>position()\<close>, is untouched.
\<close>

theorem size_keeps_position:
  "(stdio_seek_contract io len \<and> FileDisk_size_posix True io h w = Inr (n, w2) \<longrightarrow>
      FileDisk_size_posix dbg io h w = Inr (n, w2)
      \<and> n = word_of_int (len (p_file h) w)
      \<and> (0 \<le> len (p_file h) w \<and> len (p_file h) w < 2 ^ 32 \<longrightarrow> uint n = len (p_file h) w)
      \<and> (\<exists>p. FileDisk_position_posix dbg io h w = Inr (p, w)
             \<and> FileDisk_position_posix dbg io h w2 = Inr (p, w2)))
   \<and> FileDisk_size_windows io2 h2 v = Inr (GetFileSize io2 (w_file h2) v, v)
   \<and> (FileDisk_size_windows io2 h2 v = Inr (n2, v2) \<longrightarrow>
        FileDisk_position_windows dbg io2 h2 v2 = FileDisk_position_windows dbg io2 h2 v)"
proof -
  have posix: "FileDisk_size_posix dbg io h w = Inr (n, w2)
      \<and> n = word_of_int (len (p_file h) w)
      \<and> (0 \<le> len (p_file h) w \<and> len (p_file h) w < 2 ^ 32 \<longrightarrow> uint n = len (p_file h) w)
      \<and> (\<exists>p. FileDisk_position_posix dbg io h w = Inr (p, w)
             \<and> FileDisk_position_posix dbg io h w2 = Inr (p, w2))"
    if c: "stdio_seek_contract io len" and s: "FileDisk_size_posix True io h w = Inr (n, w2)"
  proof -
    from s obtain w1 where
      o: "p_file h \<noteq> NULL" and
      pos: "ftell io (p_file h) w \<noteq> - 1" and
      to_end: "fseek io (p_file h) 0 SEEK_END w = (0, w1)" and
      reset: "fseek io (p_file h) (ftell io (p_file h) w) SEEK_SET w1 = (0, w2)" and
      n: "n = word_of_int (ftell io (p_file h) w1)"
      unfolding size_posix_enabled_Inr by blast
    from c to_end have at_end: "ftell io (p_file h) w1 = len (p_file h) w"
      unfolding stdio_seek_contract_def by fastforce
    from c reset have restored: "ftell io (p_file h) w2 = ftell io (p_file h) w"
      unfolding stdio_seek_contract_def by fastforce
    have n_len: "n = word_of_int (len (p_file h) w)"
      using n at_end by simp
    have exact: "uint n = len (p_file h) w"
      if "0 \<le> len (p_file h) w \<and> len (p_file h) w < 2 ^ 32"
      using that n_len by (simp add: uint_word_of_int take_bit_int_eq_self)
    have same: "\<exists>p. FileDisk_position_posix dbg io h w = Inr (p, w)
             \<and> FileDisk_position_posix dbg io h w2 = Inr (p, w2)"
      using o pos restored by (simp add: position_posix_eq)
    from size_posix_any_build [OF s] n_len exact same show ?thesis by blast
  qed
  have win: "FileDisk_size_windows io2 h2 v = Inr (GetFileSize io2 (w_file h2) v, v)"
    by (simp add: FileDisk_size_windows_def)
  from posix win show ?thesis by auto
qed

text \<open>The 10-byte file with the cursor at 4: \<open>size()\<close> is 10 and the cursor stays at 4.\<close>

theorem size_keeps_position_witness:
  "stdio_seek_contract mem_stdio mem_len
   \<and> FileDisk_size_posix True mem_stdio mem_handle mem_world = Inr (10, mem_world)
   \<and> FileDisk_position_posix True mem_stdio mem_handle mem_world = Inr (4, mem_world)
   \<and> FileDisk_size_windows mem_win32 win_handle win_world = Inr (10, win_world)
   \<and> FileDisk_position_windows True mem_win32 win_handle win_world = Inr (4, win_world)"
  using size_keeps_position [where io = mem_stdio and len = mem_len and h = mem_handle
      and w = mem_world and n = 10 and ?w2.0 = mem_world and dbg = True and ?io2.0 = mem_win32
      and ?h2.0 = win_handle and v = win_world and ?n2.0 = 10 and ?v2.0 = win_world]
    mem_stdio_seek_contract
  by (simp add: FileDisk_size_posix_def FileDisk_position_posix_def FileDisk_size_windows_def
      FileDisk_position_windows_def CE_ASSERT_def stream_call_def mem_stdio_simps
      mem_win32_simps word_consts)




subsection \<open>Operations on a closed handle\<close>

text \<open>
  C4, as the specification states it: every operation other than \<open>open\<close>, \<open>close\<close> and
  \<open>is_open\<close> on a closed handle is caught by an assertion and fatal when assertions are
  enabled. The code has no such check. On a freshly constructed (closed) raw-handle
  object \<open>end_of_file()\<close> returns false and \<open>size()\<close> returns what \<open>GetFileSize\<close> answers
  for \<open>INVALID_HANDLE_VALUE\<close> (here \<open>0xFFFFFFFF\<close>), and with assertions enabled a
  \<open>write\<close> of 0 bytes returns 0, since only the byte count is asserted.
\<close>

theorem closed_handle_not_detected_counterexample:
  "\<not> FileDisk_is_open_windows FileDisk_new_windows
   \<and> FileDisk_end_of_file_windows FileDisk_new_windows = Inr False
   \<and> FileDisk_size_windows mem_win32 FileDisk_new_windows win_world = Inr (- 1, win_world)
   \<and> FileDisk_write_windows True mem_win32 FileDisk_new_windows 7 0 win_world
       = Inr (0, win_world)"
  by (simp add: FileDisk_is_open_windows_def FileDisk_new_windows_def
      FileDisk_end_of_file_windows_def FileDisk_size_windows_def FileDisk_write_windows_def
      CE_ASSERT_def mem_win32_simps word_consts)

text \<open>
  C4, amended: none of \<open>size\<close>, \<open>position\<close>, \<open>end_of_file\<close>, \<open>seek\<close>, \<open>seek_to_end\<close>,
  \<open>skip\<close>, \<open>read\<close>, \<open>write\<close>, \<open>flush\<close> checks that the handle is open; a closed handle's
  sentinel goes to the native call.

  Raw-handle backend: the call gets \<open>INVALID_HANDLE_VALUE\<close>, and the operation is fatal
  exactly when assertions are enabled and that native call reports failure through the
  value the operation asserts on (or, for \<open>read\<close> and \<open>write\<close>, the data pointer is null);
  \<open>end_of_file\<close> and \<open>size\<close> carry no assertion and always return.

  Stream backend: \<open>size\<close>, \<open>position\<close>, \<open>end_of_file\<close>, \<open>seek\<close>, \<open>seek_to_end\<close> and \<open>skip\<close>
  hand \<open>NULL\<close> to a stdio function that dereferences it, which has no defined behaviour
  in any build (the outcome \<open>Null_Stream\<close>); so do \<open>read\<close> and \<open>write\<close>, unless the data
  pointer is null and assertions are enabled, where the data assertion comes first.
  \<open>flush\<close> calls \<open>fflush(NULL)\<close>, which is defined, and is fatal exactly when assertions
  are enabled and that call reports failure.
\<close>

theorem closed_handle_reaches_native_layer:
  "(\<not> FileDisk_is_open_posix h \<longrightarrow>
      FileDisk_size_posix dbg io h w = Inl Null_Stream
      \<and> FileDisk_position_posix dbg io h w = Inl Null_Stream
      \<and> FileDisk_end_of_file_posix io h w = Inl Null_Stream
      \<and> FileDisk_seek_posix dbg io h k w = Inl Null_Stream
      \<and> FileDisk_seek_to_end_posix dbg io h w = Inl Null_Stream
      \<and> FileDisk_skip_posix dbg io h k w = Inl Null_Stream
      \<and> FileDisk_read_posix dbg io h data k w =
          (if dbg \<and> data = NULL then Inl (Abort ''Data must be != NULL'') else Inl Null_Stream)
      \<and> FileDisk_write_posix dbg io h data k w =
          (if dbg \<and> data = NULL then Inl (Abort ''Data must be != NULL'') else Inl Null_Stream)
      \<and> (isl (FileDisk_flush_posix dbg io h w) \<longleftrightarrow> dbg \<and> fst (fflush io NULL w) \<noteq> 0))
   \<and> (\<not> FileDisk_is_open_windows h2 \<longrightarrow>
      FileDisk_size_windows io2 h2 v = Inr (GetFileSize io2 INVALID_HANDLE_VALUE v, v)
      \<and> (isl (FileDisk_position_windows dbg io2 h2 v) \<longleftrightarrow>
           dbg \<and> fst (SetFilePointer io2 INVALID_HANDLE_VALUE 0 FILE_CURRENT v)
                   = INVALID_SET_FILE_POINTER)
      \<and> FileDisk_end_of_file_windows h2 = Inr (w_eof h2)
      \<and> (isl (FileDisk_seek_windows dbg io2 h2 k v) \<longleftrightarrow>
           dbg \<and> fst (SetFilePointer io2 INVALID_HANDLE_VALUE k FILE_BEGIN v)
                   = INVALID_SET_FILE_POINTER)
      \<and> (isl (FileDisk_seek_to_end_windows dbg io2 h2 v) \<longleftrightarrow>
           dbg \<and> fst (SetFilePointer io2 INVALID_HANDLE_VALUE 0 FILE_END v)
                   = INVALID_SET_FILE_POINTER)
      \<and> (isl (FileDisk_skip_windows dbg io2 h2 k v) \<longleftrightarrow>
           dbg \<and> fst (SetFilePointer io2 INVALID_HANDLE_VALUE k FILE_CURRENT v)
                   = INVALID_SET_FILE_POINTER)
      \<and> (isl (FileDisk_read_windows dbg io2 h2 data k v) \<longleftrightarrow>
           dbg \<and> (data = NULL \<or> fst (fst (ReadFile io2 INVALID_HANDLE_VALUE data k v)) \<noteq> TRUE))
      \<and> (isl (FileDisk_write_windows dbg io2 h2 data k v) \<longleftrightarrow>
           dbg \<and> (data = NULL \<or> snd (fst (WriteFile io2 INVALID_HANDLE_VALUE data k v)) \<noteq> k))
      \<and> (isl (FileDisk_flush_windows dbg io2 h2 v) \<longleftrightarrow>
           dbg \<and> fst (FlushFileBuffers io2 INVALID_HANDLE_VALUE v) = 0))"
proof -
  have posix: "FileDisk_size_posix dbg io h w = Inl Null_Stream
      \<and> FileDisk_position_posix dbg io h w = Inl Null_Stream
      \<and> FileDisk_end_of_file_posix io h w = Inl Null_Stream
      \<and> FileDisk_seek_posix dbg io h k w = Inl Null_Stream
      \<and> FileDisk_seek_to_end_posix dbg io h w = Inl Null_Stream
      \<and> FileDisk_skip_posix dbg io h k w = Inl Null_Stream
      \<and> FileDisk_read_posix dbg io h data k w =
          (if dbg \<and> data = NULL then Inl (Abort ''Data must be != NULL'') else Inl Null_Stream)
      \<and> FileDisk_write_posix dbg io h data k w =
          (if dbg \<and> data = NULL then Inl (Abort ''Data must be != NULL'') else Inl Null_Stream)
      \<and> (isl (FileDisk_flush_posix dbg io h w) \<longleftrightarrow> dbg \<and> fst (fflush io NULL w) \<noteq> 0)"
    if "\<not> FileDisk_is_open_posix h"
  proof -
    from that have f: "p_file h = NULL"
      by (simp add: FileDisk_is_open_posix_def)
    show ?thesis
      by (simp add: f FileDisk_size_posix_def FileDisk_position_posix_def
          FileDisk_end_of_file_posix_def FileDisk_seek_posix_def FileDisk_seek_to_end_posix_def
          FileDisk_skip_posix_def FileDisk_read_posix_def FileDisk_write_posix_def
          FileDisk_flush_posix_def stream_call_def CE_ASSERT_def split_beta)
  qed
  have win: "FileDisk_size_windows io2 h2 v = Inr (GetFileSize io2 INVALID_HANDLE_VALUE v, v)
      \<and> (isl (FileDisk_position_windows dbg io2 h2 v) \<longleftrightarrow>
           dbg \<and> fst (SetFilePointer io2 INVALID_HANDLE_VALUE 0 FILE_CURRENT v)
                   = INVALID_SET_FILE_POINTER)
      \<and> FileDisk_end_of_file_windows h2 = Inr (w_eof h2)
      \<and> (isl (FileDisk_seek_windows dbg io2 h2 k v) \<longleftrightarrow>
           dbg \<and> fst (SetFilePointer io2 INVALID_HANDLE_VALUE k FILE_BEGIN v)
                   = INVALID_SET_FILE_POINTER)
      \<and> (isl (FileDisk_seek_to_end_windows dbg io2 h2 v) \<longleftrightarrow>
           dbg \<and> fst (SetFilePointer io2 INVALID_HANDLE_VALUE 0 FILE_END v)
                   = INVALID_SET_FILE_POINTER)
      \<and> (isl (FileDisk_skip_windows dbg io2 h2 k v) \<longleftrightarrow>
           dbg \<and> fst (SetFilePointer io2 INVALID_HANDLE_VALUE k FILE_CURRENT v)
                   = INVALID_SET_FILE_POINTER)
      \<and> (isl (FileDisk_read_windows dbg io2 h2 data k v) \<longleftrightarrow>
           dbg \<and> (data = NULL \<or> fst (fst (ReadFile io2 INVALID_HANDLE_VALUE data k v)) \<noteq> TRUE))
      \<and> (isl (FileDisk_write_windows dbg io2 h2 data k v) \<longleftrightarrow>
           dbg \<and> (data = NULL \<or> snd (fst (WriteFile io2 INVALID_HANDLE_VALUE data k v)) \<noteq> k))
      \<and> (isl (FileDisk_flush_windows dbg io2 h2 v) \<longleftrightarrow>
           dbg \<and> fst (FlushFileBuffers io2 INVALID_HANDLE_VALUE v) = 0)"
    if "\<not> FileDisk_is_open_windows h2"
  proof -
    from that have f: "w_file h2 = INVALID_HANDLE_VALUE"
      by (simp add: FileDisk_is_open_windows_def)
    show ?thesis
      by (auto simp add: f FileDisk_size_windows_def FileDisk_position_windows_def
          FileDisk_end_of_file_windows_def FileDisk_seek_windows_def
          FileDisk_seek_to_end_windows_def FileDisk_skip_windows_def FileDisk_read_windows_def
          FileDisk_write_windows_def FileDisk_flush_windows_def CE_ASSERT_def Let_def split_beta)
  qed
  from posix win show ?thesis by blast
qed

text \<open>
  On closed handles over the in-memory layers. Stream backend: \<open>position\<close> and
  \<open>end_of_file\<close> reach stdio with \<open>NULL\<close> in both builds; \<open>write\<close> with a null buffer is
  stopped by the data assertion; \<open>flush\<close> returns. Raw-handle backend, whose calls fail
  for the sentinel: \<open>seek\<close> is fatal with assertions and returns without them; \<open>size\<close>
  returns \<open>0xFFFFFFFF\<close>; a zero-byte \<open>write\<close> returns.
\<close>

theorem closed_handle_reaches_native_layer_witness:
  "\<not> FileDisk_is_open_posix FileDisk_new_posix
   \<and> FileDisk_position_posix True mem_stdio FileDisk_new_posix mem_world = Inl Null_Stream
   \<and> FileDisk_position_posix False mem_stdio FileDisk_new_posix mem_world = Inl Null_Stream
   \<and> FileDisk_end_of_file_posix mem_stdio FileDisk_new_posix mem_world = Inl Null_Stream
   \<and> FileDisk_write_posix True mem_stdio FileDisk_new_posix NULL 0 mem_world
       = Inl (Abort ''Data must be != NULL'')
   \<and> \<not> isl (FileDisk_flush_posix True mem_stdio FileDisk_new_posix mem_world)
   \<and> \<not> FileDisk_is_open_windows FileDisk_new_windows
   \<and> FileDisk_size_windows mem_win32 FileDisk_new_windows win_world = Inr (- 1, win_world)
   \<and> isl (FileDisk_seek_windows True mem_win32 FileDisk_new_windows 7 win_world)
   \<and> \<not> isl (FileDisk_seek_windows False mem_win32 FileDisk_new_windows 7 win_world)
   \<and> \<not> isl (FileDisk_write_windows True mem_win32 FileDisk_new_windows 7 0 win_world)"
  using closed_handle_reaches_native_layer [where h = FileDisk_new_posix and dbg = True
      and io = mem_stdio and w = mem_world and ?h2.0 = FileDisk_new_windows
      and ?io2.0 = mem_win32 and v = win_world and k = 7]
    closed_handle_reaches_native_layer [where h = FileDisk_new_posix and dbg = False
      and io = mem_stdio and w = mem_world and ?h2.0 = FileDisk_new_windows
      and ?io2.0 = mem_win32 and v = win_world and k = 7]
    closed_handle_reaches_native_layer [where h = FileDisk_new_posix and dbg = True
      and io = mem_stdio and w = mem_world and ?h2.0 = FileDisk_new_windows
      and ?io2.0 = mem_win32 and v = win_world and k = 0 and data = 7]
    closed_handle_reaches_native_layer [where h = FileDisk_new_posix and dbg = True
      and io = mem_stdio and w = mem_world and ?h2.0 = FileDisk_new_windows
      and ?io2.0 = mem_win32 and v = win_world and k = 0 and data = NULL]
  by (simp add: FileDisk_is_open_posix_def FileDisk_new_posix_def FileDisk_is_open_windows_def
      FileDisk_new_windows_def mem_stdio_simps mem_win32_simps word_consts)

subsection \<open>Opening for reading\<close>

text \<open>
  C3. The specification says that a READ-mode \<open>open\<close> never creates the file, on both
  backends. The buffered-stream backend opens with mode "rb", which does not create.
  The raw-handle backend passes \<open>OPEN_ALWAYS\<close> to \<open>CreateFile\<close> in both modes; \<open>OPEN_ALWAYS\<close>
  creates a file that does not exist. Below: for every native layer, what a READ-mode
  open returns is what \<open>CreateFile\<close> with \<open>GENERIC_READ\<close> and \<open>OPEN_ALWAYS\<close> returns; in
  the in-memory world the missing path exists after the raw-handle READ-mode open,
  which returns an open handle, while the buffered-stream open of a missing path fails
  (fatally with assertions, leaving the handle closed and the world unchanged without).
\<close>

theorem raw_handle_read_open_creates_file:
  "(case FileDisk_open_windows False io h path READ w of
      Inl e \<Rightarrow> False
    | Inr (h1, w1) \<Rightarrow>
        (w_file h1, w1) = CreateFile io path GENERIC_READ OPEN_ALWAYS FILE_ATTRIBUTE_NORMAL w)
   \<and> ''C:/data/missing.bin'' \<notin> set (wm_paths win_world)
   \<and> FileDisk_open_windows True mem_win32 FileDisk_new_windows ''C:/data/missing.bin'' READ
        win_world
       = Inr (\<lparr>w_file = 1, w_eof = False\<rparr>,
              \<lparr>wm_paths = [''C:/data/missing.bin'', ''C:/data/intro.bin''], wm_len = 0,
               wm_ptr = 0\<rparr>)
   \<and> ''/data/missing.bin'' \<notin> set (m_paths mem_world)
   \<and> FileDisk_open_posix True mem_stdio FileDisk_new_posix ''/data/missing.bin'' READ mem_world
       = Inl (Abort ''fopen: errno = %d, path = %s'')
   \<and> FileDisk_open_posix False mem_stdio FileDisk_new_posix ''/data/missing.bin'' READ mem_world
       = Inr (FileDisk_new_posix, mem_world)"
  by (simp add: FileDisk_open_windows_def FileDisk_open_posix_def CE_ASSERT_def
      FileDisk_new_windows_def FileDisk_new_posix_def mem_stdio_simps mem_win32_simps
      word_consts split: prod.splits)

end
